theory Spec2Isabelle
  imports Complex_Main
begin

section \<open>JavaScript values\<close>

text \<open>
  The client is JavaScript: every field of a response body, every argument of a facade
  operation and every field of a returned envelope is a dynamically typed value.
  Numbers are IEEE doubles; only their sign, their being zero and their being NaN
  matter to the code, so a finite number is a real.
  An object is an association list of its own properties, in insertion order.
\<close>

datatype jsnum = NaN | NegInf | Fin real | PosInf

datatype jsval =
    Undefined
  | Null
  | JBool bool
  | JNum jsnum
  | JStr string
  | JArr "jsval list"
  | JObj "(string \<times> jsval) list"

text \<open>ToBoolean: what \<open>!v\<close>, \<open>v || d\<close>, \<open>v && d\<close> and \<open>v ? a : b\<close> test.\<close>

fun truthy :: "jsval \<Rightarrow> bool" where
  "truthy Undefined = False"
| "truthy Null = False"
| "truthy (JBool b) = b"
| "truthy (JNum n) = (n \<noteq> NaN \<and> n \<noteq> Fin 0)"
| "truthy (JStr s) = (s \<noteq> [])"
| "truthy (JArr xs) = True"
| "truthy (JObj kvs) = True"

text \<open>\<open>a || b\<close> and \<open>a && b\<close> on values.\<close>

definition js_or :: "jsval \<Rightarrow> jsval \<Rightarrow> jsval" where
  "js_or a b = (if truthy a then a else b)"

definition js_and :: "jsval \<Rightarrow> jsval \<Rightarrow> jsval" where
  "js_and a b = (if truthy a then b else a)"

fun nullish :: "jsval \<Rightarrow> bool" where
  "nullish Undefined = True"
| "nullish Null = True"
| "nullish v = False"

text \<open>
  Reading a named property of a value that is neither \<open>null\<close> nor \<open>undefined\<close>. The code
  only reads the names \<open>status\<close>, \<open>message\<close>, \<open>data\<close>, \<open>timestamp\<close>, \<open>amenities\<close>,
  \<open>property_info\<close> and \<open>amenity_score\<close>, none of which is a built-in property of a
  string, number, boolean or array, so those read as \<open>undefined\<close>. On \<open>null\<close> and
  \<open>undefined\<close> this is the result of the optional read \<open>v?.k\<close>.
\<close>

fun prop_of :: "jsval \<Rightarrow> string \<Rightarrow> jsval" where
  "prop_of (JObj kvs) k = (case map_of kvs k of None \<Rightarrow> Undefined | Some v \<Rightarrow> v)"
| "prop_of v k = Undefined"

section \<open>Raised failures\<close>

text \<open>
  What the code reads of a thrown error: \<open>error.message\<close>, \<open>error.code\<close> (axios sets
  \<open>ECONNABORTED\<close> on a deadline expiry and \<open>ERR_NETWORK\<close> on a connection failure) and
  \<open>error.response\<close> (present when the server answered with an error status).
\<close>

record http_response =
  resp_status :: nat
  resp_data :: jsval

record js_error =
  err_message :: string
  err_code :: "string option"
  err_response :: "http_response option"

text \<open>\<open>new Error(m)\<close>.\<close>

definition new_Error :: "string \<Rightarrow> js_error" where
  "new_Error m = \<lparr>err_message = m, err_code = None, err_response = None\<rparr>"

text \<open>The TypeError of the plain read \<open>v.k\<close> on \<open>null\<close> or \<open>undefined\<close> (wording of V8).\<close>

definition type_error :: "jsval \<Rightarrow> string \<Rightarrow> js_error" where
  "type_error v k =
     new_Error (''Cannot read properties of ''
        @ (if v = Null then ''null'' else ''undefined'')
        @ '' (reading '' @ [CHR 0x27] @ k @ [CHR 0x27] @ '')'')"

section \<open>The canonical envelope\<close>

record envelope =
  status :: jsval
  message :: jsval
  data :: jsval
  timestamp :: jsval

text \<open>The object literal \<open>{status, message, data, timestamp}\<close> as a value.\<close>

definition obj_of :: "envelope \<Rightarrow> jsval" where
  "obj_of e = JObj [(''status'', status e), (''message'', message e),
                    (''data'', data e), (''timestamp'', timestamp e)]"

text \<open>
  \<open>standardizeResponse(data)\<close>. The argument \<open>now\<close> is \<open>new Date().toISOString()\<close>.
  The first read, \<open>data.status\<close>, raises on \<open>null\<close> and \<open>undefined\<close>.
\<close>

definition standardizeResponse :: "string \<Rightarrow> jsval \<Rightarrow> js_error + envelope" where
  "standardizeResponse now d =
     (if nullish d then Inl (type_error d ''status'')
      else Inr \<lparr>status = js_or (prop_of d ''status'') (JStr ''success''),
                message = js_or (prop_of d ''message'') (JStr ''Success''),
                data = js_or (prop_of d ''data'') d,
                timestamp = js_or (prop_of d ''timestamp'') (JStr now)\<rparr>)"

text \<open>
  \<open>handleError(error, defaultMessage)\<close>: \<open>error.response?.data?.message\<close> if truthy, else
  \<open>error.message\<close> if truthy, else the default.
\<close>

definition response_message :: "js_error \<Rightarrow> jsval" where
  "response_message error =
     (case err_response error of None \<Rightarrow> Undefined
      | Some r \<Rightarrow> prop_of (resp_data r) ''message'')"

definition handleError :: "string \<Rightarrow> js_error \<Rightarrow> string \<Rightarrow> envelope" where
  "handleError now error defaultMessage =
     \<lparr>status = JStr ''error'',
      message = (if truthy (response_message error) then response_message error
                 else if truthy (JStr (err_message error)) then JStr (err_message error)
                 else JStr defaultMessage),
      data = JObj [],
      timestamp = JStr now\<rparr>"

text \<open>
  An already-canonical envelope: status \<open>success\<close> or \<open>error\<close>, a message string
  (possibly empty), a data mapping (possibly empty) and a timestamp, which is an ISO-8601
  instant and so a non-empty string.
\<close>

definition canonical :: "envelope \<Rightarrow> bool" where
  "canonical e \<longleftrightarrow>
     (status e = JStr ''success'' \<or> status e = JStr ''error'')
     \<and> (case message e of JStr m \<Rightarrow> True | _ \<Rightarrow> False)
     \<and> (case data e of JObj kvs \<Rightarrow> True | _ \<Rightarrow> False)
     \<and> (case timestamp e of JStr t \<Rightarrow> t \<noteq> [] | _ \<Rightarrow> False)"

section \<open>The world outside the client\<close>

text \<open>
  A request is recorded by its endpoint and body; the URL template is applied to the
  property identifier as it is. The outcome of the \<open>n\<close>-th request issued (counting from
  0) is given by the world: the backend answers with a body, or the request fails.
  The world also fixes the clock and the two language coercions whose string parsing is
  not modelled: ToNumber on strings and objects, and \<open>parseFloat\<close> on values that are not
  numbers.
\<close>

datatype endpoint = Health | Chat | Amenities jsval | Negotiate jsval | CloseDeal jsval

datatype request = GET endpoint | POST endpoint jsval

datatype outcome = Ok jsval | Fail js_error

record world =
  transport :: "nat \<Rightarrow> request \<Rightarrow> outcome"
  clock :: string
  to_number :: "jsval \<Rightarrow> jsnum"
  parse_float :: "jsval \<Rightarrow> jsnum"

text \<open>What a call leaves behind: the requests issued and the delays slept, in order.\<close>

record st =
  requests :: "request list"
  waits :: "nat list"

definition sleep :: "nat \<Rightarrow> st \<Rightarrow> st" where
  "sleep delay s = s\<lparr>waits := waits s @ [delay]\<rparr>"

text \<open>
  The response interceptor installed by the constructor. A response passes; a failure is
  turned into a resolved response whose \<open>data\<close> is
  \<open>{status: 'error', message: error.response?.data?.message || error.message || 'Network error occurred', timestamp}\<close>.
  The result is the \<open>response.data\<close> the caller of \<open>axios.get\<close> or \<open>axios.post\<close> reads, or
  the rejection it catches.
\<close>

definition interceptor_message :: "js_error \<Rightarrow> jsval" where
  "interceptor_message error =
     js_or (js_or (response_message error) (JStr (err_message error)))
           (JStr ''Network error occurred'')"

definition interceptor_body :: "string \<Rightarrow> js_error \<Rightarrow> jsval" where
  "interceptor_body now error =
     JObj [(''status'', JStr ''error''),
           (''message'', interceptor_message error),
           (''timestamp'', JStr now)]"

definition response_interceptor :: "string \<Rightarrow> outcome \<Rightarrow> js_error + jsval" where
  "response_interceptor now out =
     (case out of
        Ok body \<Rightarrow> Inr body
      | Fail error \<Rightarrow> Inr (interceptor_body now error))"

definition axios_request :: "world \<Rightarrow> request \<Rightarrow> st \<Rightarrow> (js_error + jsval) \<times> st" where
  "axios_request w rq s =
     (response_interceptor (clock w) (transport w (length (requests s)) rq),
      s\<lparr>requests := requests s @ [rq]\<rparr>)"

section \<open>The facade operations\<close>

text \<open>\<open>checkHealth\<close>: returns \<open>response.data\<close>; the catch block rethrows.\<close>

definition checkHealth :: "world \<Rightarrow> st \<Rightarrow> (js_error + jsval) \<times> st" where
  "checkHealth w s =
     (case axios_request w (GET Health) s of
        (Inr body, s1) \<Rightarrow> (Inr body, s1)
      | (Inl error, s1) \<Rightarrow> (Inl error, s1))"

text \<open>
  \<open>chatQuery\<close>. One pass through the try block of the loop: the request, then
  \<open>standardizeResponse(response.data)\<close>; either may raise into the catch block.
  The repository holds a second copy of the service, which names the field of the chat
  body \<open>message\<close> and lets its interceptor choose the message by \<open>error.code\<close> first;
  its loop, its guards and its normalisation are the same as here.
\<close>

definition maxRetries :: nat where
  "maxRetries = 3"

definition chat_attempt :: "world \<Rightarrow> jsval \<Rightarrow> st \<Rightarrow> (js_error + envelope) \<times> st" where
  "chat_attempt w query s =
     (case axios_request w (POST Chat (JObj [(''query'', query)])) s of
        (Inl error, s1) \<Rightarrow> (Inl error, s1)
      | (Inr body, s1) \<Rightarrow> (standardizeResponse (clock w) body, s1))"

text \<open>
  The while loop, entered with \<open>retryCount = 0\<close> and \<open>lastError = null\<close>. The catch block
  increments \<open>retryCount\<close> first and computes the delay from the incremented value.
\<close>

function chatQuery_loop ::
  "world \<Rightarrow> jsval \<Rightarrow> nat \<Rightarrow> js_error option \<Rightarrow> st \<Rightarrow> (js_error + envelope) \<times> st" where
  "chatQuery_loop w query retryCount lastError s =
     (if retryCount < maxRetries then
        (case chat_attempt w query s of
           (Inr env, s1) \<Rightarrow> (Inr env, s1)
         | (Inl error, s1) \<Rightarrow>
             chatQuery_loop w query (retryCount + 1) (Some error)
               (if retryCount + 1 < maxRetries
                then sleep (min (1000 * 2 ^ (retryCount + 1)) 5000) s1
                else s1))
      else
        (case lastError of
           None \<Rightarrow> (Inl (type_error Null ''response''), s)
         | Some error \<Rightarrow> (Inr (handleError (clock w) error ''Failed after multiple attempts''), s)))"
  by pat_completeness auto
termination
  by (relation "measure (\<lambda>(w, query, retryCount, lastError, s). maxRetries - retryCount)") auto

definition chatQuery :: "world \<Rightarrow> jsval \<Rightarrow> st \<Rightarrow> (js_error + envelope) \<times> st" where
  "chatQuery w query s = chatQuery_loop w query 0 None s"

text \<open>
  \<open>getPropertyAmenities\<close>. The try block after the request: the nested
  \<open>data.data.amenities\<close> if truthy, else the top-level \<open>data.amenities\<close>; only
  \<open>amenities\<close> is looked up at top level. The first read, \<open>data.data\<close>, raises on a
  \<open>null\<close> body.
\<close>

definition amenities_try :: "string \<Rightarrow> jsval \<Rightarrow> js_error + envelope" where
  "amenities_try now body =
     (if nullish body then Inl (type_error body ''data'')
      else
        (let nested = prop_of body ''data'';
             amenitiesData =
               (if truthy (js_and nested (prop_of nested ''amenities''))
                then prop_of nested ''amenities''
                else prop_of body ''amenities'')
         in standardizeResponse now
              (JObj [(''status'', js_or (prop_of body ''status'') (JStr ''success'')),
                     (''message'', js_or (prop_of body ''message'')
                                         (JStr ''Amenities retrieved successfully'')),
                     (''data'',
                        JObj [(''amenities'', js_or amenitiesData (JArr [])),
                              (''property_info'', js_or (prop_of nested ''property_info'') (JObj [])),
                              (''amenity_score'', js_or (prop_of nested ''amenity_score'') (JObj []))]),
                     (''timestamp'', js_or (prop_of body ''timestamp'') (JStr now))])))"

definition getPropertyAmenities :: "world \<Rightarrow> jsval \<Rightarrow> st \<Rightarrow> (js_error + envelope) \<times> st" where
  "getPropertyAmenities w propertyId s =
     (case axios_request w (GET (Amenities propertyId)) s of
        (r, s1) \<Rightarrow>
          (case (case r of Inl error \<Rightarrow> Inl error | Inr body \<Rightarrow> amenities_try (clock w) body) of
             Inr env \<Rightarrow> (Inr env, s1)
           | Inl error \<Rightarrow> (Inr (handleError (clock w) error ''Failed to retrieve amenities''), s1)))"

text \<open>
  \<open>negotiatePrice\<close>. The guard is \<open>!propertyId || !offer || offer <= 0\<close>; the comparison
  converts \<open>offer\<close> to a number, and NaN compares false.
\<close>

definition ToNumber :: "world \<Rightarrow> jsval \<Rightarrow> jsnum" where
  "ToNumber w v =
     (case v of
        Undefined \<Rightarrow> NaN
      | Null \<Rightarrow> Fin 0
      | JBool b \<Rightarrow> Fin (if b then 1 else 0)
      | JNum n \<Rightarrow> n
      | _ \<Rightarrow> to_number w v)"

definition le_zero :: "world \<Rightarrow> jsval \<Rightarrow> bool" where
  "le_zero w v =
     (case ToNumber w v of NaN \<Rightarrow> False | NegInf \<Rightarrow> True | Fin r \<Rightarrow> r \<le> 0 | PosInf \<Rightarrow> False)"

definition parseFloat :: "world \<Rightarrow> jsval \<Rightarrow> jsnum" where
  "parseFloat w v = (case v of JNum n \<Rightarrow> n | _ \<Rightarrow> parse_float w v)"

definition negotiate_try :: "world \<Rightarrow> jsval \<Rightarrow> jsval \<Rightarrow> st \<Rightarrow> (js_error + envelope) \<times> st" where
  "negotiate_try w propertyId offer s =
     (if \<not> truthy propertyId \<or> \<not> truthy offer \<or> le_zero w offer
      then (Inl (new_Error ''Invalid property ID or offer amount''), s)
      else
        (case axios_request w (POST (Negotiate propertyId)
                                    (JObj [(''offer'', JNum (parseFloat w offer))])) s of
           (Inl error, s1) \<Rightarrow> (Inl error, s1)
         | (Inr body, s1) \<Rightarrow> (standardizeResponse (clock w) body, s1)))"

definition negotiatePrice :: "world \<Rightarrow> jsval \<Rightarrow> jsval \<Rightarrow> st \<Rightarrow> (js_error + envelope) \<times> st" where
  "negotiatePrice w propertyId offer s =
     (case negotiate_try w propertyId offer s of
        (Inr env, s1) \<Rightarrow> (Inr env, s1)
      | (Inl error, s1) \<Rightarrow> (Inr (handleError (clock w) error ''Failed to process negotiation''), s1))"

text \<open>\<open>finalizeDeal(propertyId, dealDetails = {})\<close>: the default applies to \<open>undefined\<close>.\<close>

definition finalize_try :: "world \<Rightarrow> jsval \<Rightarrow> jsval \<Rightarrow> st \<Rightarrow> (js_error + envelope) \<times> st" where
  "finalize_try w propertyId dealDetails s =
     (if \<not> truthy propertyId
      then (Inl (new_Error ''Invalid property ID''), s)
      else
        (case axios_request w (POST (CloseDeal propertyId)
                                    (if dealDetails = Undefined then JObj [] else dealDetails)) s of
           (Inl error, s1) \<Rightarrow> (Inl error, s1)
         | (Inr body, s1) \<Rightarrow> (standardizeResponse (clock w) body, s1)))"

definition finalizeDeal :: "world \<Rightarrow> jsval \<Rightarrow> jsval \<Rightarrow> st \<Rightarrow> (js_error + envelope) \<times> st" where
  "finalizeDeal w propertyId dealDetails s =
     (case finalize_try w propertyId dealDetails s of
        (Inr env, s1) \<Rightarrow> (Inr env, s1)
      | (Inl error, s1) \<Rightarrow> (Inr (handleError (clock w) error ''Failed to finalize deal''), s1))"

section \<open>The error handler of \<open>utils/errorHandler.js\<close>\<close>





section \<open>Worlds and values used as concrete inputs\<close>

text \<open>A world in which every request has the same outcome.\<close>

definition constant_world :: "outcome \<Rightarrow> world" where
  "constant_world out =
     \<lparr>transport = (\<lambda>n rq. out), clock = ''2024-01-01T00:00:00.000Z'',
      to_number = (\<lambda>v. NaN), parse_float = (\<lambda>v. NaN)\<rparr>"

definition fresh :: st where
  "fresh = \<lparr>requests = [], waits = []\<rparr>"

text \<open>The failures axios raises: no connection, deadline expired, and an error status.\<close>

definition network_error :: js_error where
  "network_error =
     \<lparr>err_message = ''Network Error'', err_code = Some ''ERR_NETWORK'', err_response = None\<rparr>"


definition not_found_error :: js_error where
  "not_found_error =
     \<lparr>err_message = ''Request failed with status code 404'', err_code = Some ''ERR_BAD_REQUEST'',
      err_response =
        Some \<lparr>resp_status = 404, resp_data = JObj [(''message'', JStr ''Property not found'')]\<rparr>\<rparr>"


section \<open>The transport as the operations see it\<close>

declare chatQuery_loop.simps [simp del]

lemma truthy_interceptor_message: "truthy (interceptor_message error)"
  by (simp add: interceptor_message_def js_or_def)

lemma axios_request_Fail:
  "transport w (length (requests s)) rq = Fail error \<Longrightarrow>
   axios_request w rq s =
     (Inr (interceptor_body (clock w) error), s\<lparr>requests := requests s @ [rq]\<rparr>)"
  by (simp add: axios_request_def response_interceptor_def)

lemma axios_request_Ok:
  "transport w (length (requests s)) rq = Ok body \<Longrightarrow>
   axios_request w rq s = (Inr body, s\<lparr>requests := requests s @ [rq]\<rparr>)"
  by (simp add: axios_request_def response_interceptor_def)

text \<open>With the interceptor installed, no request rejects.\<close>

lemma axios_request_resolves:
  "\<exists>body. axios_request w rq s = (Inr body, s\<lparr>requests := requests s @ [rq]\<rparr>)"
  by (cases "transport w (length (requests s)) rq")
     (simp_all add: axios_request_def response_interceptor_def)

lemma standardizeResponse_interceptor_body:
  "standardizeResponse now (interceptor_body now error) =
     Inr \<lparr>status = JStr ''error'', message = interceptor_message error,
          data = interceptor_body now error, timestamp = JStr now\<rparr>"
  using truthy_interceptor_message [of error]
  by (simp add: standardizeResponse_def interceptor_body_def js_or_def)

section \<open>The retry loop of \<open>chatQuery\<close>\<close>

lemma chat_attempt_Fail:
  "transport w (length (requests s)) (POST Chat (JObj [(''query'', query)])) = Fail error \<Longrightarrow>
   chat_attempt w query s =
     (Inr \<lparr>status = JStr ''error'', message = interceptor_message error,
           data = interceptor_body (clock w) error, timestamp = JStr (clock w)\<rparr>,
      s\<lparr>requests := requests s @ [POST Chat (JObj [(''query'', query)])]\<rparr>)"
  by (simp add: chat_attempt_def axios_request_Fail standardizeResponse_interceptor_body)

lemma chat_attempt_null:
  "transport w (length (requests s)) (POST Chat (JObj [(''query'', query)])) = Ok Null \<Longrightarrow>
   isl (fst (chat_attempt w query s))"
  by (simp add: chat_attempt_def axios_request_Ok standardizeResponse_def)

lemma snd_chat_attempt:
  "snd (chat_attempt w query s) =
     s\<lparr>requests := requests s @ [POST Chat (JObj [(''query'', query)])]\<rparr>"
  using axios_request_resolves [of w "POST Chat (JObj [(''query'', query)])" s]
  by (auto simp: chat_attempt_def)

lemma chat_attempt_raises:
  assumes "isl (fst (chat_attempt w query s))"
  shows "\<exists>error. chat_attempt w query s =
           (Inl error, s\<lparr>requests := requests s @ [POST Chat (JObj [(''query'', query)])]\<rparr>)"
proof -
  from assms obtain error where "fst (chat_attempt w query s) = Inl error"
    by (auto simp: isl_def)
  with snd_chat_attempt [of w query s] show ?thesis
    by (metis prod.collapse)
qed

lemma chatQuery_first_Inr:
  "chat_attempt w query s = (Inr env, s1) \<Longrightarrow> chatQuery w query s = (Inr env, s1)"
  by (simp add: chatQuery_def chatQuery_loop.simps [of w query 0] maxRetries_def)

text \<open>
  A failed request does not reach the catch block of the loop: the interceptor has
  resolved it, and the first pass returns.
\<close>

lemma chatQuery_Fail:
  "transport w (length (requests s)) (POST Chat (JObj [(''query'', query)])) = Fail error \<Longrightarrow>
   chatQuery w query s =
     (Inr \<lparr>status = JStr ''error'', message = interceptor_message error,
           data = interceptor_body (clock w) error, timestamp = JStr (clock w)\<rparr>,
      s\<lparr>requests := requests s @ [POST Chat (JObj [(''query'', query)])]\<rparr>)"
  by (rule chatQuery_first_Inr) (rule chat_attempt_Fail)

lemma chatQuery_loop_raise:
  "retryCount < maxRetries \<Longrightarrow> n = retryCount + 1 \<Longrightarrow>
   chat_attempt w query s = (Inl error, s1) \<Longrightarrow>
   chatQuery_loop w query retryCount lastError s =
     chatQuery_loop w query n (Some error)
       (if n < maxRetries then sleep (min (1000 * 2 ^ n) 5000) s1 else s1)"
  by (subst chatQuery_loop.simps) simp

lemma chatQuery_loop_exhausted:
  "\<not> retryCount < maxRetries \<Longrightarrow>
   chatQuery_loop w query retryCount (Some error) s =
     (Inr (handleError (clock w) error ''Failed after multiple attempts''), s)"
  by (subst chatQuery_loop.simps) simp


lemma chatQuery_all_raise:
  assumes raises: "\<forall>s'. isl (fst (chat_attempt w query s'))"
  shows "\<exists>error. chatQuery w query s =
           (Inr (handleError (clock w) error ''Failed after multiple attempts''),
            s\<lparr>requests := requests s @ replicate 3 (POST Chat (JObj [(''query'', query)])),
              waits := waits s @ [2000, 4000]\<rparr>)
         \<and> fst (chat_attempt w query
                  (s\<lparr>requests := requests s @ [POST Chat (JObj [(''query'', query)]),
                                              POST Chat (JObj [(''query'', query)])],
                    waits := waits s @ [2000, 4000]\<rparr>)) = Inl error"
proof -
  let ?rq = "POST Chat (JObj [(''query'', query)])"
  let ?s1 = "s\<lparr>requests := requests s @ [?rq]\<rparr>"
  let ?s1' = "sleep 2000 ?s1"
  let ?s2 = "?s1'\<lparr>requests := requests ?s1' @ [?rq]\<rparr>"
  let ?s2' = "sleep 4000 ?s2"
  let ?s3 = "?s2'\<lparr>requests := requests ?s2' @ [?rq]\<rparr>"
  from raises chat_attempt_raises obtain e1 where a1: "chat_attempt w query s = (Inl e1, ?s1)"
    by blast
  from raises chat_attempt_raises obtain e2 where a2: "chat_attempt w query ?s1' = (Inl e2, ?s2)"
    by blast
  from raises chat_attempt_raises obtain e3 where a3: "chat_attempt w query ?s2' = (Inl e3, ?s3)"
    by blast
  have "chatQuery_loop w query 0 None s = chatQuery_loop w query 1 (Some e1)
          (if 1 < maxRetries then sleep (min (1000 * 2 ^ 1) 5000) ?s1 else ?s1)"
    by (rule chatQuery_loop_raise [OF _ _ a1]) (simp_all add: maxRetries_def)
  then have "chatQuery w query s = chatQuery_loop w query 1 (Some e1) ?s1'"
    by (simp add: chatQuery_def maxRetries_def)
  also have "\<dots> = chatQuery_loop w query 2 (Some e2)
          (if 2 < maxRetries then sleep (min (1000 * 2 ^ 2) 5000) ?s2 else ?s2)"
    by (rule chatQuery_loop_raise [OF _ _ a2]) (simp_all add: maxRetries_def)
  also have "\<dots> = chatQuery_loop w query 2 (Some e2) ?s2'"
    by (simp add: maxRetries_def)
  also have "\<dots> = chatQuery_loop w query 3 (Some e3)
          (if 3 < maxRetries then sleep (min (1000 * 2 ^ 3) 5000) ?s3 else ?s3)"
    by (rule chatQuery_loop_raise [OF _ _ a3]) (simp_all add: maxRetries_def)
  also have "\<dots> = chatQuery_loop w query 3 (Some e3) ?s3"
    by (simp add: maxRetries_def)
  also have "\<dots> = (Inr (handleError (clock w) e3 ''Failed after multiple attempts''), ?s3)"
    by (rule chatQuery_loop_exhausted) (simp add: maxRetries_def)
  finally have "chatQuery w query s =
      (Inr (handleError (clock w) e3 ''Failed after multiple attempts''), ?s3)" .
  moreover have "?s3 = s\<lparr>requests := requests s @ replicate 3 ?rq,
                          waits := waits s @ [2000, 4000]\<rparr>"
    by (simp add: sleep_def numeral_3_eq_3)
  moreover have "?s2' = s\<lparr>requests := requests s @ [?rq, ?rq],
                           waits := waits s @ [2000, 4000]\<rparr>"
    by (simp add: sleep_def)
  moreover from a3 have "fst (chat_attempt w query ?s2') = Inl e3"
    by simp
  ultimately have
    "chatQuery w query s =
       (Inr (handleError (clock w) e3 ''Failed after multiple attempts''),
        s\<lparr>requests := requests s @ replicate 3 ?rq, waits := waits s @ [2000, 4000]\<rparr>)
     \<and> fst (chat_attempt w query
              (s\<lparr>requests := requests s @ [?rq, ?rq], waits := waits s @ [2000, 4000]\<rparr>))
         = Inl e3"
    by simp
  then show ?thesis ..
qed

text \<open>
  C1. The error invariant, status \<open>error\<close> implies data \<open>{}\<close>, is the one \<open>handleError\<close>
  keeps. It is broken on the path the claim names: when the transport fails (here with no
  connection), the interceptor resolves the failure into a body with status \<open>error\<close> and
  no data field, and \<open>chatQuery\<close> passes that body through \<open>standardizeResponse\<close>, which
  copies the whole body into data. The envelope returned has status \<open>error\<close> and a data
  mapping of three fields.
\<close>

theorem chatQuery_error_envelope_keeps_body:
  "chatQuery (constant_world (Fail network_error)) (JStr ''hi'') fresh =
     (Inr \<lparr>status = JStr ''error'', message = JStr ''Network Error'',
           data = JObj [(''status'', JStr ''error''), (''message'', JStr ''Network Error''),
                        (''timestamp'', JStr ''2024-01-01T00:00:00.000Z'')],
           timestamp = JStr ''2024-01-01T00:00:00.000Z''\<rparr>,
      \<lparr>requests = [POST Chat (JObj [(''query'', JStr ''hi'')])], waits = []\<rparr>)"
  using chatQuery_Fail [of "constant_world (Fail network_error)" fresh "JStr ''hi''" network_error]
  by (simp add: constant_world_def fresh_def network_error_def interceptor_body_def
        interceptor_message_def response_message_def js_or_def)




text \<open>
  C3, as stated, fails. A first attempt can also fail inside the try block, after the
  request has resolved: when the backend answers with the body \<open>null\<close>,
  \<open>standardizeResponse\<close> raises a TypeError. That failure carries no response, hence no
  status code, and no deadline or connection code: it is of no kind but Unknown, which
  the claim counts as non-transient. The catch block does not look at the kind of what
  it caught, and the loop goes on: three requests are issued, and 2000 ms and 4000 ms
  are slept.
\<close>

theorem chatQuery_raised_failure_retried_counterexample:
  "fst (chat_attempt (constant_world (Ok Null)) (JStr ''hi'') fresh)
     = Inl (type_error Null ''status'')
   \<and> err_response (type_error Null ''status'') = None
   \<and> err_code (type_error Null ''status'') = None
   \<and> requests (snd (chatQuery (constant_world (Ok Null)) (JStr ''hi'') fresh)) =
       [POST Chat (JObj [(''query'', JStr ''hi'')]), POST Chat (JObj [(''query'', JStr ''hi'')]),
        POST Chat (JObj [(''query'', JStr ''hi'')])]
   \<and> length (requests (snd (chatQuery (constant_world (Ok Null)) (JStr ''hi'') fresh))) \<noteq> 1
   \<and> waits (snd (chatQuery (constant_world (Ok Null)) (JStr ''hi'') fresh)) = [2000, 4000]"
proof -
  have "transport (constant_world (Ok Null)) (length (requests fresh))
          (POST Chat (JObj [(''query'', JStr ''hi'')])) = Ok Null"
    by (simp add: constant_world_def)
  then have a: "fst (chat_attempt (constant_world (Ok Null)) (JStr ''hi'') fresh)
      = Inl (type_error Null ''status'')"
    by (simp add: chat_attempt_def axios_request_Ok standardizeResponse_def)
  have b: "err_response (type_error Null ''status'') = None
           \<and> err_code (type_error Null ''status'') = None"
    by (simp add: type_error_def new_Error_def)
  have "\<forall>s'. isl (fst (chat_attempt (constant_world (Ok Null)) (JStr ''hi'') s'))"
    by (simp add: chat_attempt_null constant_world_def)
  from chatQuery_all_raise [OF this, of fresh]
  have c: "snd (chatQuery (constant_world (Ok Null)) (JStr ''hi'') fresh) =
      \<lparr>requests = [POST Chat (JObj [(''query'', JStr ''hi'')]),
                    POST Chat (JObj [(''query'', JStr ''hi'')]),
                    POST Chat (JObj [(''query'', JStr ''hi'')])],
        waits = [2000, 4000]\<rparr>"
    by (auto simp: fresh_def numeral_3_eq_3)
  from a b c show ?thesis by simp
qed

text \<open>
  C3, amended. When the first request of \<open>chatQuery\<close> fails at the transport, whatever
  the failure, and so in particular with a 404 or another 4xx status, exactly one request
  is issued, nothing is slept, and the failure is returned at once as an envelope with
  status \<open>error\<close> and the failure's message. A failure raised inside the try block after
  the request has resolved is not covered: the loop retries it.
\<close>

theorem chatQuery_failure_single_attempt:
  assumes "transport w (length (requests s)) (POST Chat (JObj [(''query'', query)])) = Fail error"
  shows "\<exists>env s'. chatQuery w query s = (Inr env, s')
           \<and> requests s' = requests s @ [POST Chat (JObj [(''query'', query)])]
           \<and> waits s' = waits s
           \<and> status env = JStr ''error''
           \<and> message env = interceptor_message error"
  using chatQuery_Fail [OF assms] by simp

theorem chatQuery_failure_single_attempt_witness:
  "transport (constant_world (Fail not_found_error)) (length (requests fresh))
       (POST Chat (JObj [(''query'', JStr ''hi'')])) = Fail not_found_error
   \<and> (\<exists>env s'. chatQuery (constant_world (Fail not_found_error)) (JStr ''hi'') fresh = (Inr env, s')
           \<and> requests s' = [POST Chat (JObj [(''query'', JStr ''hi'')])]
           \<and> waits s' = []
           \<and> status env = JStr ''error''
           \<and> message env = JStr ''Property not found'')"
proof -
  have h: "transport (constant_world (Fail not_found_error)) (length (requests fresh))
       (POST Chat (JObj [(''query'', JStr ''hi'')])) = Fail not_found_error"
    by (simp add: constant_world_def)
  have m: "interceptor_message not_found_error = JStr ''Property not found''"
    by (simp add: interceptor_message_def response_message_def not_found_error_def js_or_def)
  from chatQuery_failure_single_attempt [OF h] show ?thesis
    using h by (simp add: m fresh_def)
qed

section \<open>Normalisation\<close>

lemma prop_of_obj_of:
  "prop_of (obj_of e) ''status'' = status e"
  "prop_of (obj_of e) ''message'' = message e"
  "prop_of (obj_of e) ''data'' = data e"
  "prop_of (obj_of e) ''timestamp'' = timestamp e"
  by (simp_all add: obj_of_def)

lemma nullish_obj_of: "\<not> nullish (obj_of e)"
  by (simp add: obj_of_def)

text \<open>
  C9. When the raw body has no truthy \<open>data\<close> field, \<open>standardizeResponse\<close> uses the
  whole raw body as the envelope's data, so the body's own status, message and timestamp
  reappear inside data. For the body \<open>{status:"error", message:m, timestamp:t}\<close> the
  data of the envelope is that very object, not the empty mapping.
\<close>

theorem standardizeResponse_reuses_body:
  "(\<not> nullish d \<and> \<not> truthy (prop_of d ''data'')
      \<longrightarrow> (\<exists>e. standardizeResponse now d = Inr e \<and> data e = d))
   \<and> (\<exists>e. standardizeResponse now
              (JObj [(''status'', JStr ''error''), (''message'', m), (''timestamp'', t)]) = Inr e
          \<and> data e = JObj [(''status'', JStr ''error''), (''message'', m), (''timestamp'', t)]
          \<and> data e \<noteq> JObj [])"
  by (simp add: standardizeResponse_def js_or_def)

theorem standardizeResponse_reuses_body_witness:
  "\<not> nullish (JObj [(''amenities'', JArr [JStr ''Gym''])])
   \<and> \<not> truthy (prop_of (JObj [(''amenities'', JArr [JStr ''Gym''])]) ''data'')
   \<and> (\<exists>e. standardizeResponse ''2024-01-01T00:00:00.000Z''
              (JObj [(''amenities'', JArr [JStr ''Gym''])]) = Inr e
          \<and> data e = JObj [(''amenities'', JArr [JStr ''Gym''])])"
  using standardizeResponse_reuses_body
    [of "JObj [(''amenities'', JArr [JStr ''Gym''])]" "''2024-01-01T00:00:00.000Z''"]
  by simp

text \<open>
  C7, as stated, fails. The envelope with status \<open>success\<close>, the empty message, the
  empty data mapping and a timestamp is canonical, but \<open>standardizeResponse\<close> replaces
  its empty message by \<open>Success\<close>: \<open>data.message || 'Success'\<close> takes the default for
  every falsy message, not only for a missing one.
\<close>

theorem standardizeResponse_idempotent_counterexample:
  "canonical \<lparr>status = JStr ''success'', message = JStr [], data = JObj [],
               timestamp = JStr ''2024-01-01T00:00:00.000Z''\<rparr>
   \<and> standardizeResponse ''2024-06-30T12:00:00.000Z''
         (obj_of \<lparr>status = JStr ''success'', message = JStr [], data = JObj [],
                  timestamp = JStr ''2024-01-01T00:00:00.000Z''\<rparr>)
       = Inr \<lparr>status = JStr ''success'', message = JStr ''Success'', data = JObj [],
               timestamp = JStr ''2024-01-01T00:00:00.000Z''\<rparr>
   \<and> standardizeResponse ''2024-06-30T12:00:00.000Z''
         (obj_of \<lparr>status = JStr ''success'', message = JStr [], data = JObj [],
                  timestamp = JStr ''2024-01-01T00:00:00.000Z''\<rparr>)
       \<noteq> Inr \<lparr>status = JStr ''success'', message = JStr [], data = JObj [],
               timestamp = JStr ''2024-01-01T00:00:00.000Z''\<rparr>"
  by (simp add: canonical_def standardizeResponse_def obj_of_def js_or_def)

text \<open>
  C7, amended. For every already-canonical envelope whose message is not the empty
  string, \<open>standardizeResponse\<close> returns an equal envelope: every field is kept and none
  is added. An empty data mapping is kept, since an object is truthy.
\<close>

theorem standardizeResponse_idempotent:
  assumes "canonical e" and "message e \<noteq> JStr []"
  shows "standardizeResponse now (obj_of e) = Inr e"
proof -
  from assms have "truthy (status e)" "truthy (message e)" "truthy (data e)" "truthy (timestamp e)"
    by (auto simp: canonical_def split: jsval.splits)
  then show ?thesis
    by (simp add: standardizeResponse_def prop_of_obj_of nullish_obj_of js_or_def)
qed

theorem standardizeResponse_idempotent_witness:
  "canonical \<lparr>status = JStr ''error'', message = JStr ''Not found'', data = JObj [],
               timestamp = JStr ''2024-01-01T00:00:00.000Z''\<rparr>
   \<and> message \<lparr>status = JStr ''error'', message = JStr ''Not found'', data = JObj [],
               timestamp = JStr ''2024-01-01T00:00:00.000Z''\<rparr> \<noteq> JStr []
   \<and> standardizeResponse ''2024-06-30T12:00:00.000Z''
         (obj_of \<lparr>status = JStr ''error'', message = JStr ''Not found'', data = JObj [],
                  timestamp = JStr ''2024-01-01T00:00:00.000Z''\<rparr>)
       = Inr \<lparr>status = JStr ''error'', message = JStr ''Not found'', data = JObj [],
               timestamp = JStr ''2024-01-01T00:00:00.000Z''\<rparr>"
proof -
  let ?e = "\<lparr>status = JStr ''error'', message = JStr ''Not found'', data = JObj [],
               timestamp = JStr ''2024-01-01T00:00:00.000Z''\<rparr>"
  have c: "canonical ?e" by (simp add: canonical_def)
  have m: "message ?e \<noteq> JStr []" by simp
  from standardizeResponse_idempotent [OF c m, of "''2024-06-30T12:00:00.000Z''"] c m
  show ?thesis by simp
qed

section \<open>Classification by \<open>handleApiError\<close>\<close>




section \<open>Validation in \<open>negotiatePrice\<close> and \<open>finalizeDeal\<close>\<close>

lemma negotiatePrice_rejected:
  "\<not> truthy propertyId \<or> \<not> truthy offer \<or> le_zero w offer \<Longrightarrow>
   negotiatePrice w propertyId offer s =
     (Inr \<lparr>status = JStr ''error'', message = JStr ''Invalid property ID or offer amount'',
           data = JObj [], timestamp = JStr (clock w)\<rparr>, s)"
  by (simp add: negotiatePrice_def negotiate_try_def handleError_def new_Error_def
        response_message_def)


lemma finalizeDeal_rejected:
  "\<not> truthy propertyId \<Longrightarrow>
   finalizeDeal w propertyId dealDetails s =
     (Inr \<lparr>status = JStr ''error'', message = JStr ''Invalid property ID'',
           data = JObj [], timestamp = JStr (clock w)\<rparr>, s)"
  by (simp add: finalizeDeal_def finalize_try_def handleError_def new_Error_def
        response_message_def)



text \<open>
  C10. \<open>negotiatePrice\<close> and \<open>finalizeDeal\<close> treat every falsy \<open>propertyId\<close> as absent, the
  number 0 and the empty string as well as \<open>null\<close> and \<open>undefined\<close>: they return an
  envelope with status \<open>error\<close> and issue no request, whatever the offer or the deal
  details.
\<close>

theorem falsy_propertyId_rejected:
  assumes "\<not> truthy propertyId"
  shows "negotiatePrice w propertyId offer s =
           (Inr \<lparr>status = JStr ''error'', message = JStr ''Invalid property ID or offer amount'',
                 data = JObj [], timestamp = JStr (clock w)\<rparr>, s)
         \<and> finalizeDeal w propertyId dealDetails s =
           (Inr \<lparr>status = JStr ''error'', message = JStr ''Invalid property ID'',
                 data = JObj [], timestamp = JStr (clock w)\<rparr>, s)"
  using assms by (simp add: negotiatePrice_rejected finalizeDeal_rejected)

theorem falsy_propertyId_rejected_witness:
  "\<not> truthy (JNum (Fin 0))
   \<and> negotiatePrice (constant_world (Ok (JObj []))) (JNum (Fin 0)) (JNum (Fin 100)) fresh =
       (Inr \<lparr>status = JStr ''error'', message = JStr ''Invalid property ID or offer amount'',
             data = JObj [], timestamp = JStr ''2024-01-01T00:00:00.000Z''\<rparr>,
        \<lparr>requests = [], waits = []\<rparr>)
   \<and> finalizeDeal (constant_world (Ok (JObj []))) (JNum (Fin 0)) Undefined fresh =
       (Inr \<lparr>status = JStr ''error'', message = JStr ''Invalid property ID'',
             data = JObj [], timestamp = JStr ''2024-01-01T00:00:00.000Z''\<rparr>,
        \<lparr>requests = [], waits = []\<rparr>)"
proof -
  have h: "\<not> truthy (JNum (Fin 0))" by simp
  from falsy_propertyId_rejected
         [OF h, of "constant_world (Ok (JObj []))" "JNum (Fin 100)" fresh Undefined]
  show ?thesis
    using h by (simp add: fresh_def constant_world_def)
qed

section \<open>The reshaping of \<open>getPropertyAmenities\<close>\<close>

lemma js_or_idem: "js_or (js_or a b) b = js_or a b"
  by (simp add: js_or_def)

lemma truthy_js_or: "truthy b \<Longrightarrow> truthy (js_or a b)"
  by (simp add: js_or_def)

lemma amenities_data:
  "(if truthy (js_and nested (prop_of nested ''amenities''))
    then prop_of nested ''amenities'' else other) =
   js_or (prop_of nested ''amenities'') other"
  by (cases nested) (auto simp: js_and_def js_or_def)

lemma amenities_try_body:
  assumes "\<not> nullish body"
  shows "amenities_try now body =
     Inr \<lparr>status = js_or (prop_of body ''status'') (JStr ''success''),
          message = js_or (prop_of body ''message'') (JStr ''Amenities retrieved successfully''),
          data = JObj [(''amenities'',
                          js_or (js_or (prop_of (prop_of body ''data'') ''amenities'')
                                       (prop_of body ''amenities'')) (JArr [])),
                       (''property_info'',
                          js_or (prop_of (prop_of body ''data'') ''property_info'') (JObj [])),
                       (''amenity_score'',
                          js_or (prop_of (prop_of body ''data'') ''amenity_score'') (JObj []))],
          timestamp = js_or (prop_of body ''timestamp'') (JStr now)\<rparr>"
  using assms
  by (simp add: amenities_try_def Let_def amenities_data standardizeResponse_def js_or_idem)
     (simp add: js_or_def)

lemma getPropertyAmenities_Ok:
  assumes "transport w (length (requests s)) (GET (Amenities propertyId)) = Ok body"
    and "\<not> nullish body"
  shows "getPropertyAmenities w propertyId s =
     (amenities_try (clock w) body, s\<lparr>requests := requests s @ [GET (Amenities propertyId)]\<rparr>)"
  using assms
  by (simp add: getPropertyAmenities_def axios_request_Ok amenities_try_body)

lemma getPropertyAmenities_null:
  assumes "transport w (length (requests s)) (GET (Amenities propertyId)) = Ok body"
    and "nullish body"
  shows "getPropertyAmenities w propertyId s =
     (Inr (handleError (clock w) (type_error body ''data'') ''Failed to retrieve amenities''),
      s\<lparr>requests := requests s @ [GET (Amenities propertyId)]\<rparr>)"
  using assms
  by (simp add: getPropertyAmenities_def axios_request_Ok amenities_try_def)

text \<open>
  C6, as stated, fails. For the body \<open>null\<close> the read \<open>data.data\<close> raises, the catch block
  returns the envelope of \<open>handleError\<close>, and data is the empty mapping with none of the
  three keys. For the body \<open>{amenities: "Gym"}\<close> the key \<open>amenities\<close> holds the string
  \<open>Gym\<close>, not a sequence: a truthy value is passed on whatever its type.
\<close>

theorem getPropertyAmenities_shape_counterexample:
  "\<not> isl (fst (getPropertyAmenities (constant_world (Ok Null)) (JNum (Fin 42)) fresh))
   \<and> data (projr (fst (getPropertyAmenities (constant_world (Ok Null)) (JNum (Fin 42)) fresh)))
       = JObj []
   \<and> \<not> isl (fst (getPropertyAmenities
                   (constant_world (Ok (JObj [(''amenities'', JStr ''Gym'')])))
                   (JNum (Fin 42)) fresh))
   \<and> prop_of (data (projr (fst (getPropertyAmenities
                   (constant_world (Ok (JObj [(''amenities'', JStr ''Gym'')])))
                   (JNum (Fin 42)) fresh)))) ''amenities''
       = JStr ''Gym''"
proof -
  have "transport (constant_world (Ok Null)) (length (requests fresh))
          (GET (Amenities (JNum (Fin 42)))) = Ok Null"
    by (simp add: constant_world_def)
  from getPropertyAmenities_null [OF this]
  have a: "fst (getPropertyAmenities (constant_world (Ok Null)) (JNum (Fin 42)) fresh) =
      Inr (handleError (clock (constant_world (Ok Null))) (type_error Null ''data'')
             ''Failed to retrieve amenities'')"
    by simp
  let ?b = "JObj [(''amenities'', JStr ''Gym'')]"
  have "transport (constant_world (Ok ?b)) (length (requests fresh))
          (GET (Amenities (JNum (Fin 42)))) = Ok ?b"
    by (simp add: constant_world_def)
  from getPropertyAmenities_Ok [OF this]
  have b: "fst (getPropertyAmenities (constant_world (Ok ?b)) (JNum (Fin 42)) fresh) =
      amenities_try (clock (constant_world (Ok ?b))) ?b"
    by simp
  have c: "\<not> nullish ?b" by simp
  show ?thesis
    unfolding a b amenities_try_body [OF c]
    by (simp add: handleError_def js_or_def)
qed

text \<open>
  C6, amended. For every backend body other than \<open>null\<close> and \<open>undefined\<close>,
  \<open>getPropertyAmenities\<close> returns an envelope whose data has exactly the three keys
  \<open>amenities\<close>, \<open>property_info\<close> and \<open>amenity_score\<close>. \<open>amenities\<close> is the nested
  \<open>data.amenities\<close> if truthy, else the top-level \<open>amenities\<close> if truthy, else the empty
  sequence. \<open>property_info\<close> and \<open>amenity_score\<close> are the nested values if truthy, else
  the empty mapping; they are not read at top level. The status is the body's if truthy,
  else \<open>success\<close>. For the flattened body \<open>{amenities: ["Gym", "Pool"]}\<close> the status is
  \<open>success\<close> and \<open>data.amenities\<close> is \<open>["Gym", "Pool"]\<close>.
\<close>

theorem getPropertyAmenities_shape:
  assumes "transport w (length (requests s)) (GET (Amenities propertyId)) = Ok body"
    and "\<not> nullish body"
  shows "\<exists>env. getPropertyAmenities w propertyId s =
             (Inr env, s\<lparr>requests := requests s @ [GET (Amenities propertyId)]\<rparr>)
         \<and> status env = js_or (prop_of body ''status'') (JStr ''success'')
         \<and> data env =
             JObj [(''amenities'',
                      js_or (js_or (prop_of (prop_of body ''data'') ''amenities'')
                                   (prop_of body ''amenities'')) (JArr [])),
                   (''property_info'',
                      js_or (prop_of (prop_of body ''data'') ''property_info'') (JObj [])),
                   (''amenity_score'',
                      js_or (prop_of (prop_of body ''data'') ''amenity_score'') (JObj []))]"
  using getPropertyAmenities_Ok [OF assms] amenities_try_body [OF assms(2)]
  by simp

theorem getPropertyAmenities_shape_witness:
  "transport (constant_world (Ok (JObj [(''amenities'', JArr [JStr ''Gym'', JStr ''Pool''])])))
       (length (requests fresh)) (GET (Amenities (JNum (Fin 42))))
     = Ok (JObj [(''amenities'', JArr [JStr ''Gym'', JStr ''Pool''])])
   \<and> \<not> nullish (JObj [(''amenities'', JArr [JStr ''Gym'', JStr ''Pool''])])
   \<and> (\<exists>env. getPropertyAmenities
               (constant_world (Ok (JObj [(''amenities'', JArr [JStr ''Gym'', JStr ''Pool''])])))
               (JNum (Fin 42)) fresh =
             (Inr env, \<lparr>requests = [GET (Amenities (JNum (Fin 42)))], waits = []\<rparr>)
         \<and> status env = JStr ''success''
         \<and> data env =
             JObj [(''amenities'', JArr [JStr ''Gym'', JStr ''Pool'']),
                   (''property_info'', JObj []), (''amenity_score'', JObj [])])"
proof -
  let ?b = "JObj [(''amenities'', JArr [JStr ''Gym'', JStr ''Pool''])]"
  have h: "transport (constant_world (Ok ?b)) (length (requests fresh))
             (GET (Amenities (JNum (Fin 42)))) = Ok ?b"
    by (simp add: constant_world_def)
  have n: "\<not> nullish ?b" by simp
  from getPropertyAmenities_shape [OF h n] show ?thesis
    using h by (simp add: js_or_def fresh_def)
qed

section \<open>Totality of the facade\<close>

lemma status_handleError: "status (handleError now error msg) = JStr ''error''"
  by (simp add: handleError_def)

lemma chat_attempt_result:
  assumes "chat_attempt w query s = (Inr env, s1)"
  shows "status env = JStr ''error''
         \<or> (\<exists>n body. transport w n (POST Chat (JObj [(''query'', query)])) = Ok body
                \<and> standardizeResponse (clock w) body = Inr env)"
proof (cases "transport w (length (requests s)) (POST Chat (JObj [(''query'', query)]))")
  case (Ok body)
  with assms have "standardizeResponse (clock w) body = Inr env"
    by (simp add: chat_attempt_def axios_request_Ok)
  with Ok show ?thesis by blast
next
  case (Fail error)
  from chat_attempt_Fail [OF this] assms show ?thesis by auto
qed

lemma chatQuery_loop_total:
  "retryCount < maxRetries \<or> lastError \<noteq> None \<Longrightarrow>
   \<exists>env s'. chatQuery_loop w query retryCount lastError s = (Inr env, s')
     \<and> (status env = JStr ''error''
         \<or> (\<exists>n body. transport w n (POST Chat (JObj [(''query'', query)])) = Ok body
                \<and> standardizeResponse (clock w) body = Inr env))"
proof (induction w query retryCount lastError s rule: chatQuery_loop.induct)
  case (1 w query retryCount lastError s)
  show ?case
  proof (cases "retryCount < maxRetries")
    case True
    obtain r s1 where a: "chat_attempt w query s = (r, s1)"
      by fastforce
    show ?thesis
    proof (cases r)
      case (Inr env)
      with a True have "chatQuery_loop w query retryCount lastError s = (Inr env, s1)"
        by (subst chatQuery_loop.simps) simp
      with chat_attempt_result [of w query s env s1] a Inr show ?thesis
        by simp
    next
      case (Inl error)
      with a True have "chatQuery_loop w query retryCount lastError s =
          chatQuery_loop w query (retryCount + 1) (Some error)
            (if retryCount + 1 < maxRetries
             then sleep (min (1000 * 2 ^ (retryCount + 1)) 5000) s1 else s1)"
        by (subst chatQuery_loop.simps) simp
      with "1.IH" [OF True a [symmetric] Inl] show ?thesis
        by simp
    qed
  next
    case False
    with "1.prems" obtain error where "lastError = Some error"
      by auto
    with False show ?thesis
      by (subst chatQuery_loop.simps) (simp add: status_handleError)
  qed
qed

lemma chatQuery_total:
  "\<exists>env s'. chatQuery w query s = (Inr env, s')
     \<and> (status env = JStr ''error''
         \<or> (\<exists>n body. transport w n (POST Chat (JObj [(''query'', query)])) = Ok body
                \<and> standardizeResponse (clock w) body = Inr env))"
  unfolding chatQuery_def by (rule chatQuery_loop_total) (simp add: maxRetries_def)

lemma status_amenities_interceptor:
  "\<exists>env. amenities_try now (interceptor_body now error) = Inr env \<and> status env = JStr ''error''"
  by (simp add: amenities_try_def Let_def standardizeResponse_def interceptor_body_def js_or_def)

lemma getPropertyAmenities_total:
  "\<exists>env. getPropertyAmenities w propertyId s =
            (Inr env, s\<lparr>requests := requests s @ [GET (Amenities propertyId)]\<rparr>)
     \<and> (status env = JStr ''error''
         \<or> (\<exists>body. transport w (length (requests s)) (GET (Amenities propertyId)) = Ok body
                \<and> amenities_try (clock w) body = Inr env))"
proof (cases "transport w (length (requests s)) (GET (Amenities propertyId))")
  case (Ok body)
  then show ?thesis
    by (cases "amenities_try (clock w) body")
       (simp_all add: getPropertyAmenities_def axios_request_Ok status_handleError)
next
  case (Fail error)
  with status_amenities_interceptor [of "clock w" error] show ?thesis
    by (auto simp: getPropertyAmenities_def axios_request_Fail)
qed

lemma negotiatePrice_total:
  "\<exists>env s'. negotiatePrice w propertyId offer s = (Inr env, s')
     \<and> (status env = JStr ''error''
         \<or> (\<exists>body. transport w (length (requests s))
                      (POST (Negotiate propertyId) (JObj [(''offer'', JNum (parseFloat w offer))]))
                    = Ok body
                \<and> standardizeResponse (clock w) body = Inr env))"
proof (cases "\<not> truthy propertyId \<or> \<not> truthy offer \<or> le_zero w offer")
  case True
  then show ?thesis
    by (simp add: negotiatePrice_def negotiate_try_def status_handleError)
next
  case False
  show ?thesis
  proof (cases "transport w (length (requests s))
                  (POST (Negotiate propertyId) (JObj [(''offer'', JNum (parseFloat w offer))]))")
    case (Ok body)
    with False show ?thesis
      by (cases "standardizeResponse (clock w) body")
         (simp_all add: negotiatePrice_def negotiate_try_def axios_request_Ok status_handleError)
  next
    case (Fail error)
    with False show ?thesis
      by (simp add: negotiatePrice_def negotiate_try_def axios_request_Fail
            standardizeResponse_interceptor_body)
  qed
qed

lemma finalizeDeal_total:
  "\<exists>env s'. finalizeDeal w propertyId dealDetails s = (Inr env, s')
     \<and> (status env = JStr ''error''
         \<or> (\<exists>body. transport w (length (requests s))
                      (POST (CloseDeal propertyId)
                            (if dealDetails = Undefined then JObj [] else dealDetails))
                    = Ok body
                \<and> standardizeResponse (clock w) body = Inr env))"
proof (cases "\<not> truthy propertyId")
  case True
  then show ?thesis
    by (simp add: finalizeDeal_def finalize_try_def status_handleError)
next
  case False
  show ?thesis
  proof (cases "transport w (length (requests s))
                  (POST (CloseDeal propertyId)
                        (if dealDetails = Undefined then JObj [] else dealDetails))")
    case (Ok body)
    with False show ?thesis
      by (cases "standardizeResponse (clock w) body")
         (simp_all add: finalizeDeal_def finalize_try_def axios_request_Ok status_handleError)
  next
    case (Fail error)
    with False show ?thesis
      by (simp add: finalizeDeal_def finalize_try_def axios_request_Fail
            standardizeResponse_interceptor_body)
  qed
qed

lemma checkHealth_body:
  "checkHealth w s =
     (Inr (case transport w (length (requests s)) (GET Health) of
             Ok body \<Rightarrow> body
           | Fail error \<Rightarrow> interceptor_body (clock w) error),
      s\<lparr>requests := requests s @ [GET Health]\<rparr>)"
  by (cases "transport w (length (requests s)) (GET Health)")
     (simp_all add: checkHealth_def axios_request_Ok axios_request_Fail)

text \<open>
  C4, as stated, fails for \<open>checkHealth\<close>, which returns \<open>response.data\<close> as it is. When
  the request fails it returns the three-field object of the interceptor, which has no
  data field and so is no canonical envelope; when the backend answers with the text
  \<open>OK\<close> it returns that string.
\<close>

theorem checkHealth_not_envelope_counterexample:
  "fst (checkHealth (constant_world (Fail network_error)) fresh) =
     Inr (JObj [(''status'', JStr ''error''), (''message'', JStr ''Network Error''),
                (''timestamp'', JStr ''2024-01-01T00:00:00.000Z'')])
   \<and> prop_of (JObj [(''status'', JStr ''error''), (''message'', JStr ''Network Error''),
                (''timestamp'', JStr ''2024-01-01T00:00:00.000Z'')]) ''data'' = Undefined
   \<and> fst (checkHealth (constant_world (Ok (JStr ''OK''))) fresh) = Inr (JStr ''OK'')"
  by (simp add: checkHealth_body constant_world_def interceptor_body_def interceptor_message_def
        response_message_def network_error_def js_or_def)

text \<open>
  C4, amended. \<open>chatQuery\<close>, \<open>getPropertyAmenities\<close>, \<open>negotiatePrice\<close> and
  \<open>finalizeDeal\<close> are total: for every input and every outcome of the transport they
  return an envelope of the four fields and never raise, and the envelope has status
  \<open>error\<close> unless it is the normalisation of a body the backend answered with.
  \<open>checkHealth\<close> resolves as well, but with the response body itself: the body of the
  backend, or for a failed request the object the interceptor built.
\<close>

theorem facade_total:
  "(\<exists>env s'. chatQuery w query s = (Inr env, s')
      \<and> (status env = JStr ''error''
          \<or> (\<exists>n body. transport w n (POST Chat (JObj [(''query'', query)])) = Ok body
                 \<and> standardizeResponse (clock w) body = Inr env)))
   \<and> (\<exists>env. getPropertyAmenities w propertyId s =
               (Inr env, s\<lparr>requests := requests s @ [GET (Amenities propertyId)]\<rparr>)
      \<and> (status env = JStr ''error''
          \<or> (\<exists>body. transport w (length (requests s)) (GET (Amenities propertyId)) = Ok body
                 \<and> amenities_try (clock w) body = Inr env)))
   \<and> (\<exists>env s'. negotiatePrice w propertyId offer s = (Inr env, s')
      \<and> (status env = JStr ''error''
          \<or> (\<exists>body. transport w (length (requests s))
                       (POST (Negotiate propertyId) (JObj [(''offer'', JNum (parseFloat w offer))]))
                     = Ok body
                 \<and> standardizeResponse (clock w) body = Inr env)))
   \<and> (\<exists>env s'. finalizeDeal w propertyId dealDetails s = (Inr env, s')
      \<and> (status env = JStr ''error''
          \<or> (\<exists>body. transport w (length (requests s))
                       (POST (CloseDeal propertyId)
                             (if dealDetails = Undefined then JObj [] else dealDetails))
                     = Ok body
                 \<and> standardizeResponse (clock w) body = Inr env)))
   \<and> checkHealth w s =
       (Inr (case transport w (length (requests s)) (GET Health) of
               Ok body \<Rightarrow> body
             | Fail error \<Rightarrow> interceptor_body (clock w) error),
        s\<lparr>requests := requests s @ [GET Health]\<rparr>)"
  using chatQuery_total [of w query s] getPropertyAmenities_total [of w propertyId s]
    negotiatePrice_total [of w propertyId offer s] finalizeDeal_total [of w propertyId dealDetails s]
    checkHealth_body [of w s]
  by blast

end
